theory Spec2Isabelle
  imports Complex_Main "HOL-Library.Sublist"
begin

section \<open>Data model\<close>

text \<open>
  Depth maps are two-dimensional arrays of millimetre readings, kept as a list of rows.
  The camera delivers unsigned 16-bit readings; the estimator itself is written for any
  integer array and never computes in the element type (every arithmetic step happens
  after conversion to floating point), so the readings are embedded in \<open>int\<close>.
  A float64 value of the source is a real number. The float64 arithmetic of the outlier
  filter, where rounding decides which samples survive, is a parameter of the estimator
  (\<open>arith\<close> below); \<open>exact_arith\<close> is its instance without rounding. An image is a list
  of rows of three-channel pixels; the channel values are only moved around, never
  computed with.
\<close>

type_synonym depth_array = "int list list"

type_synonym bbox = "real \<times> real \<times> real \<times> real"

type_synonym pixel = "nat \<times> nat \<times> nat"

type_synonym image = "pixel list list"

text \<open>The dictionary built for one detection in \<open>process_frame\<close>.\<close>

record detection_info =
  tracker_id :: "int option"
  class_id :: "int option"
  class_name :: string
  confidence :: "real option"
  bbox :: "real list"
  depth_mm :: real
  depth_m :: real

text \<open>
  The second component returned by \<open>process_frame\<close>: either the per-frame dictionary
  with \<open>frame_number\<close>, \<open>timestamp\<close>, \<open>processing_time_ms\<close> and \<open>detections\<close>, or the
  dictionary \<open>{'error': msg}\<close>.
\<close>

datatype metadata =
  FrameMetadata (frame_number: nat) (timestamp: real) (processing_time_ms: real)
    (detections: "detection_info list")
| ErrorMetadata string

record detection_stats =
  objects_detected :: nat
  avg_processing_time :: real
  model_loaded :: bool
  last_detection_count :: nat

text \<open>The fields of \<open>ObjectDetectionProcessor\<close>; \<open>model\<close> tells whether a model object is held.\<close>

record processor =
  model_path :: string
  model :: bool
  tracker :: bool
  box_annotator :: bool
  label_annotator :: bool
  frame_count :: nat
  processing_times :: "real list"
  stats :: detection_stats
  YOLO_INPUT_SIZE :: int
  CENTER_REGION_RATIO :: real
  DEPTH_OUTLIER_THRESHOLD :: real
  detection_metadata :: "metadata list"

text \<open>The object built by \<open>ObjectDetectionProcessor.__init__\<close>.\<close>

definition init_processor :: "string \<Rightarrow> processor" where
  "init_processor path =
     \<lparr>model_path = path, model = False, tracker = False, box_annotator = False,
      label_annotator = False, frame_count = 0, processing_times = [],
      stats = \<lparr>objects_detected = 0, avg_processing_time = 0, model_loaded = False,
               last_detection_count = 0\<rparr>,
      YOLO_INPUT_SIZE = 640, CENTER_REGION_RATIO = 6 / 10, DEPTH_OUTLIER_THRESHOLD = 2,
      detection_metadata = []\<rparr>"

section \<open>Depth estimator: \<open>calculate_depth_robust_center\<close>\<close>

text \<open>Python's \<open>int(x)\<close> on a float truncates toward zero.\<close>

definition trunc_int :: "real \<Rightarrow> int" where
  "trunc_int x = (if 0 \<le> x then \<lfloor>x\<rfloor> else \<lceil>x\<rceil>)"

definition shape0 :: "'a list list \<Rightarrow> int" where
  "shape0 a = int (length a)"

definition shape1 :: "'a list list \<Rightarrow> int" where
  "shape1 a = (case a of [] \<Rightarrow> 0 | r # _ \<Rightarrow> int (length r))"

text \<open>
  The slice \<open>xs[lo:hi]\<close>. The estimator only slices with \<open>0 \<le> lo < hi\<close>, where Python's
  slice is the elements from index \<open>lo\<close> up to, not including, \<open>hi\<close> (cut at the end).
\<close>

definition slice :: "int \<Rightarrow> int \<Rightarrow> 'a list \<Rightarrow> 'a list" where
  "slice lo hi xs = take (nat hi - nat lo) (drop (nat lo) xs)"

text \<open>The mean and the population standard deviation of a list, without rounding.\<close>

definition np_mean :: "real list \<Rightarrow> real" where
  "np_mean xs = sum_list xs / real (length xs)"

definition np_std :: "real list \<Rightarrow> real" where
  "np_std xs = (let m = np_mean xs in sqrt (np_mean (map (\<lambda>x. \<bar>x - m\<bar> ^ 2) xs)))"

text \<open>Lines 111-123: the corners of the shrunk centre region, clipped to the array.\<close>

definition center_bounds :: "processor \<Rightarrow> depth_array \<Rightarrow> bbox \<Rightarrow> int \<times> int \<times> int \<times> int" where
  "center_bounds self depth_array b =
     (case b of (b0, b1, b2, b3) \<Rightarrow>
        let x1 = trunc_int b0; y1 = trunc_int b1; x2 = trunc_int b2; y2 = trunc_int b3;
            width = x2 - x1;
            height = y2 - y1;
            margin_x = trunc_int (real_of_int width * (1 - CENTER_REGION_RATIO self) / 2);
            margin_y = trunc_int (real_of_int height * (1 - CENTER_REGION_RATIO self) / 2);
            center_x1 = max 0 (x1 + margin_x);
            center_y1 = max 0 (y1 + margin_y);
            center_x2 = min (shape1 depth_array) (x2 - margin_x);
            center_y2 = min (shape0 depth_array) (y2 - margin_y)
        in (center_x1, center_y1, center_x2, center_y2))"

text \<open>Line 128: \<open>depth_array[center_y1:center_y2, center_x1:center_x2]\<close>.\<close>

definition bbox_depth_of :: "depth_array \<Rightarrow> int \<times> int \<times> int \<times> int \<Rightarrow> int list list" where
  "bbox_depth_of depth_array c =
     (case c of (center_x1, center_y1, center_x2, center_y2) \<Rightarrow>
        map (slice center_x1 center_x2) (slice center_y1 center_y2 depth_array))"

text \<open>Line 129: the boolean mask \<open>(bbox_depth > 0) & (bbox_depth < 10000)\<close>, in row-major order.\<close>

definition valid_depth_of :: "int list list \<Rightarrow> int list" where
  "valid_depth_of bbox_depth = filter (\<lambda>v. 0 < v \<and> v < 10000) (concat bbox_depth)"

text \<open>
  Lines 135-143: mean after removing statistical outliers, computed without rounding.
  \<open>robust_mean_with\<close> below is the same computation over a given float64 arithmetic.
\<close>

definition robust_mean :: "processor \<Rightarrow> int list \<Rightarrow> real" where
  "robust_mean self valid_depth =
     (let mean_depth = np_mean (map real_of_int valid_depth);
          std_depth = np_std (map real_of_int valid_depth);
          filtered_depth =
            filter (\<lambda>v. \<bar>real_of_int v - mean_depth\<bar> \<le> DEPTH_OUTLIER_THRESHOLD self * std_depth)
              valid_depth
      in if length filtered_depth > 0 then np_mean (map real_of_int filtered_depth)
         else mean_depth)"

definition calculate_depth_robust_center :: "processor \<Rightarrow> depth_array \<Rightarrow> bbox \<Rightarrow> real" where
  "calculate_depth_robust_center self depth_array b =
     (case center_bounds self depth_array b of
        (center_x1, center_y1, center_x2, center_y2) \<Rightarrow>
          if center_x2 \<le> center_x1 \<or> center_y2 \<le> center_y1 then 0
          else
            let bbox_depth = bbox_depth_of depth_array (center_x1, center_y1, center_x2, center_y2);
                valid_depth = valid_depth_of bbox_depth
            in if length valid_depth < 5 then 0 else robust_mean self valid_depth)"

text \<open>
  The sample interval as the specification words it, \<open>(0, 10000]\<close>, for comparison with
  the mask of the code.
\<close>

definition spec_valid_depth_of :: "int list list \<Rightarrow> int list" where
  "spec_valid_depth_of bbox_depth = filter (\<lambda>v. 0 < v \<and> v \<le> 10000) (concat bbox_depth)"

text \<open>
  The float64 arithmetic of the program, as a parameter: what \<open>np.mean\<close> and \<open>np.std\<close>
  return on an integer array, the rounded difference of two float64 values (the
  elements of \<open>valid_depth - mean_depth\<close>), their rounded product
  (\<open>DEPTH_OUTLIER_THRESHOLD * std_depth\<close>) and quotient, and what \<open>np.mean\<close> returns on a
  list of floats. Absolute value and comparison of float64 values are exact, and so is
  the conversion of a 16-bit reading.
\<close>

record arith =
  arith_mean :: "int list \<Rightarrow> real"
  arith_std :: "int list \<Rightarrow> real"
  arith_sub :: "real \<Rightarrow> real \<Rightarrow> real"
  arith_mul :: "real \<Rightarrow> real \<Rightarrow> real"
  arith_div :: "real \<Rightarrow> real \<Rightarrow> real"
  arith_mean_floats :: "real list \<Rightarrow> real"

text \<open>Lines 135-143 over a given arithmetic.\<close>

definition robust_mean_with :: "arith \<Rightarrow> processor \<Rightarrow> int list \<Rightarrow> real" where
  "robust_mean_with ops self valid_depth =
     (let mean_depth = arith_mean ops valid_depth;
          std_depth = arith_std ops valid_depth;
          filtered_depth =
            filter (\<lambda>v. \<bar>arith_sub ops (real_of_int v) mean_depth\<bar>
                          \<le> arith_mul ops (DEPTH_OUTLIER_THRESHOLD self) std_depth)
              valid_depth
      in if length filtered_depth > 0 then arith_mean ops filtered_depth else mean_depth)"

text \<open>Lines 106-143 over a given arithmetic.\<close>

definition calculate_depth_robust_center_with ::
  "arith \<Rightarrow> processor \<Rightarrow> depth_array \<Rightarrow> bbox \<Rightarrow> real" where
  "calculate_depth_robust_center_with ops self depth_array b =
     (case center_bounds self depth_array b of
        (center_x1, center_y1, center_x2, center_y2) \<Rightarrow>
          if center_x2 \<le> center_x1 \<or> center_y2 \<le> center_y1 then 0
          else
            let bbox_depth = bbox_depth_of depth_array (center_x1, center_y1, center_x2, center_y2);
                valid_depth = valid_depth_of bbox_depth
            in if length valid_depth < 5 then 0 else robust_mean_with ops self valid_depth)"

text \<open>The arithmetic without rounding.\<close>

definition exact_arith :: arith where
  "exact_arith =
     \<lparr>arith_mean = (\<lambda>vs. np_mean (map real_of_int vs)),
      arith_std = (\<lambda>vs. np_std (map real_of_int vs)),
      arith_sub = (\<lambda>x y. x - y),
      arith_mul = (\<lambda>x y. x * y),
      arith_div = (\<lambda>x y. x / y),
      arith_mean_floats = np_mean\<rparr>"

section \<open>Detection pipeline: \<open>process_frame\<close>\<close>

text \<open>
  The detector, the tracker and the annotators are external collaborators. What they
  return on one frame is supplied by a \<open>frame_env\<close>; an exception raised by one of them is
  the \<open>Inl\<close> of a sum, carrying the exception's message.

  \<open>sv_detections\<close> is the detection set after the tracker update, with its parallel
  arrays; \<open>names\<close> is the class-name table that comes with the detector's result.
  The field \<open>detector\<close> of the environment is the outcome of lines 157-162 together:
  running the model, converting its result and updating the tracker. The detection set
  always has the attributes \<open>class_id\<close> and \<open>tracker_id\<close>, so the \<open>hasattr\<close> tests of
  lines 174 and 192 hold. \<open>key_error_text\<close> is the text that \<open>str\<close> gives for the
  \<open>KeyError\<close> of a class id that the table lacks (the \<open>repr\<close> of the id), and
  \<open>float_arith\<close> is the float64 arithmetic of the runtime.
\<close>

record sv_detections =
  xyxy :: "bbox list"
  det_class_id :: "int list"
  det_tracker_id :: "int list"
  det_confidence :: "real list"

text \<open>
  A label of line 198 (track id, class name, depth in metres) or of line 200 (no depth);
  rendering it as text is left to the annotator.
\<close>

datatype label = DepthLabel int string real | NoDepthLabel int string

record frame_env =
  detector :: "string + (sv_detections \<times> (int \<times> string) list)"
  annotate_boxes :: "image \<Rightarrow> sv_detections \<Rightarrow> string + image"
  annotate_labels :: "image \<Rightarrow> sv_detections \<Rightarrow> label list \<Rightarrow> string + image"
  key_error_text :: "int \<Rightarrow> string"
  float_arith :: arith
  time_start :: real
  time_processed :: real
  time_stamp :: real

text \<open>A loop whose body may raise: the first exception ends it.\<close>

fun collect :: "('a \<Rightarrow> string + 'b) \<Rightarrow> 'a list \<Rightarrow> string + 'b list" where
  "collect f [] = Inr []"
| "collect f (x # xs) =
     (case f x of
        Inl e \<Rightarrow> Inl e
      | Inr y \<Rightarrow> (case collect f xs of Inl e \<Rightarrow> Inl e | Inr ys \<Rightarrow> Inr (y # ys)))"

text \<open>\<open>xs[i] if i < len(xs) else None\<close>.\<close>

definition nth_or_none :: "'a list \<Rightarrow> nat \<Rightarrow> 'a option" where
  "nth_or_none xs i = (if i < length xs then Some (xs ! i) else None)"

text \<open>\<open>results.names[class_id]\<close>: a missing key raises \<open>KeyError\<close>.\<close>

definition lookup_name ::
  "(int \<Rightarrow> string) \<Rightarrow> (int \<times> string) list \<Rightarrow> int \<Rightarrow> string + string" where
  "lookup_name key_text names c =
     (case map_of names c of None \<Rightarrow> Inl (key_text c) | Some n \<Rightarrow> Inr n)"

definition class_name_of ::
  "(int \<Rightarrow> string) \<Rightarrow> (int \<times> string) list \<Rightarrow> int option \<Rightarrow> string + string" where
  "class_name_of key_text names c =
     (case c of None \<Rightarrow> Inr ''unknown'' | Some k \<Rightarrow> lookup_name key_text names k)"

text \<open>Lines 170-188: the body of the loop over \<open>detections.xyxy\<close>, at index \<open>i\<close>.\<close>

definition detection_info_at ::
  "arith \<Rightarrow> processor \<Rightarrow> depth_array \<Rightarrow> sv_detections \<Rightarrow> (int \<Rightarrow> string)
    \<Rightarrow> (int \<times> string) list \<Rightarrow> nat \<Rightarrow> string + detection_info" where
  "detection_info_at ops self depth_frame dets key_text names i =
     (let b = xyxy dets ! i;
          avg_depth = calculate_depth_robust_center_with ops self depth_frame b;
          cid = nth_or_none (det_class_id dets) i;
          tid = nth_or_none (det_tracker_id dets) i;
          conf = nth_or_none (det_confidence dets) i
      in case class_name_of key_text names cid of
           Inl e \<Rightarrow> Inl e
         | Inr cname \<Rightarrow>
             Inr \<lparr>tracker_id = tid, class_id = cid, class_name = cname, confidence = conf,
                  bbox = (case b of (b0, b1, b2, b3) \<Rightarrow> [b0, b1, b2, b3]),
                  depth_mm = avg_depth,
                  depth_m = (if avg_depth > 0 then arith_div ops avg_depth 1000 else 0)\<rparr>)"

text \<open>Lines 193-202: the body of the loop over \<open>zip(class_id, tracker_id)\<close>, at index \<open>i\<close>.\<close>

definition label_at ::
  "arith \<Rightarrow> real list \<Rightarrow> sv_detections \<Rightarrow> (int \<Rightarrow> string) \<Rightarrow> (int \<times> string) list
    \<Rightarrow> nat \<Rightarrow> string + label" where
  "label_at ops depth_values dets key_text names i =
     (case class_name_of key_text names (Some (det_class_id dets ! i)) of
        Inl e \<Rightarrow> Inl e
      | Inr cname \<Rightarrow>
          if i < length depth_values \<and> depth_values ! i > 0
          then Inr (DepthLabel (det_tracker_id dets ! i) cname
                      (arith_div ops (depth_values ! i) 1000))
          else Inr (NoDepthLabel (det_tracker_id dets ! i) cname))"

text \<open>
  Lines 156-233, the body of the \<open>try\<close>. Nothing of the processor is written before the
  last external call has returned, so an exception leaves the processor as it was.
\<close>

definition try_process ::
  "processor \<Rightarrow> frame_env \<Rightarrow> image \<Rightarrow> depth_array \<Rightarrow> string + (processor \<times> image \<times> metadata)" where
  "try_process self env rgb_frame depth_frame =
     (case detector env of
        Inl e \<Rightarrow> Inl e
      | Inr (dets, names) \<Rightarrow>
          let depth_values =
                map (calculate_depth_robust_center_with (float_arith env) self depth_frame)
                  (xyxy dets)
          in case collect
                    (detection_info_at (float_arith env) self depth_frame dets
                       (key_error_text env) names)
                    [0 ..< length (xyxy dets)] of
               Inl e \<Rightarrow> Inl e
             | Inr detection_info \<Rightarrow>
          (case collect (label_at (float_arith env) depth_values dets (key_error_text env) names)
                  [0 ..< min (length (det_class_id dets)) (length (det_tracker_id dets))] of
               Inl e \<Rightarrow> Inl e
             | Inr labels \<Rightarrow>
          (case (if box_annotator self then annotate_boxes env rgb_frame dets else Inr rgb_frame) of
               Inl e \<Rightarrow> Inl e
             | Inr boxed \<Rightarrow>
          (case (if label_annotator self then annotate_labels env boxed dets labels else Inr boxed) of
               Inl e \<Rightarrow> Inl e
             | Inr annotated_frame \<Rightarrow>
                 let processing_time =
                       arith_mul (float_arith env)
                         (arith_sub (float_arith env) (time_processed env) (time_start env)) 1000;
                     times = processing_times self @ [processing_time];
                     times' = (if length times > 30 then tl times else times);
                     stats' = (stats self)\<lparr>objects_detected := length (xyxy dets),
                                avg_processing_time :=
                                  arith_mean_floats (float_arith env) times',
                                last_detection_count := length (xyxy dets)\<rparr>;
                     frame_metadata =
                       FrameMetadata (frame_count self) (time_stamp env) processing_time detection_info
                 in Inr (self\<lparr>processing_times := times', stats := stats',
                               frame_count := frame_count self + 1\<rparr>,
                         annotated_frame, frame_metadata)))))"

text \<open>
  \<open>process_frame\<close> returns the new processor, the frame and the metadata. A model object
  exists only if the detection libraries were imported, so the test of line 150 is the
  test of \<open>model\<close>.
\<close>

definition process_frame ::
  "processor \<Rightarrow> frame_env \<Rightarrow> image \<Rightarrow> depth_array \<Rightarrow> processor \<times> image \<times> metadata" where
  "process_frame self env rgb_frame depth_frame =
     (if \<not> model self then (self, rgb_frame, ErrorMetadata ''Model not loaded'')
      else case try_process self env rgb_frame depth_frame of
             Inl e \<Rightarrow> (self, rgb_frame, ErrorMetadata (''Processing failed: '' @ e))
           | Inr r \<Rightarrow> r)"

definition add_detection_metadata :: "processor \<Rightarrow> metadata \<Rightarrow> processor" where
  "add_detection_metadata self m = self\<lparr>detection_metadata := detection_metadata self @ [m]\<rparr>"

definition clear_metadata :: "processor \<Rightarrow> processor" where
  "clear_metadata self = self\<lparr>detection_metadata := [], frame_count := 0\<rparr>"

section \<open>Metadata sidecar: \<open>save_detection_metadata\<close>\<close>

datatype json =
  JNull
| JInt int
| JFloat real
| JString string
| JArray "json list"
| JObject "(string \<times> json) list"

text \<open>
  Python's \<open>s.replace(old, new)\<close>: every occurrence of \<open>old\<close>, found from the left without
  overlap, becomes \<open>new\<close>.
\<close>

function py_replace :: "string \<Rightarrow> string \<Rightarrow> string \<Rightarrow> string" where
  "py_replace old new [] = (if old = [] then new else [])"
| "py_replace old new (c # cs) =
     (if old = [] then new @ concat (map (\<lambda>x. x # new) (c # cs))
      else if prefix old (c # cs) then new @ py_replace old new (drop (length old) (c # cs))
      else c # py_replace old new cs)"
  by pat_completeness auto
termination
  by (relation "measure (\<lambda>(old, new, s). length s)") auto

definition json_of_option :: "('a \<Rightarrow> json) \<Rightarrow> 'a option \<Rightarrow> json" where
  "json_of_option f x = (case x of None \<Rightarrow> JNull | Some v \<Rightarrow> f v)"

definition json_of_detection :: "detection_info \<Rightarrow> json" where
  "json_of_detection d =
     JObject [(''tracker_id'', json_of_option JInt (tracker_id d)),
              (''class_id'', json_of_option JInt (class_id d)),
              (''class_name'', JString (class_name d)),
              (''confidence'', json_of_option JFloat (confidence d)),
              (''bbox'', JArray (map JFloat (bbox d))),
              (''depth_mm'', JFloat (depth_mm d)),
              (''depth_m'', JFloat (depth_m d))]"

fun json_of_metadata :: "metadata \<Rightarrow> json" where
  "json_of_metadata (FrameMetadata n t p ds) =
     JObject [(''frame_number'', JInt (int n)),
              (''timestamp'', JFloat t),
              (''processing_time_ms'', JFloat p),
              (''detections'', JArray (map json_of_detection ds))]"
| "json_of_metadata (ErrorMetadata e) = JObject [(''error'', JString e)]"

text \<open>Line 249.\<close>

definition metadata_file :: "string \<Rightarrow> string" where
  "metadata_file output_path =
     py_replace ''.mp4'' ''_detections.json'' (py_replace ''.avi'' ''_detections.json'' output_path)"

text \<open>Lines 251-260: the dictionary handed to \<open>json.dump\<close>.\<close>

definition detection_document :: "processor \<Rightarrow> json" where
  "detection_document self =
     JObject [(''total_frames'', JInt (int (length (detection_metadata self)))),
              (''model_path'', JString (model_path self)),
              (''config'',
                 JObject [(''center_region_ratio'', JFloat (CENTER_REGION_RATIO self)),
                          (''depth_outlier_threshold'', JFloat (DEPTH_OUTLIER_THRESHOLD self)),
                          (''yolo_input_size'', JInt (YOLO_INPUT_SIZE self))]),
              (''frames'', JArray (map json_of_metadata (detection_metadata self)))]"

text \<open>
  \<open>save_detection_metadata\<close> returns the file it wrote (name and document) and its
  boolean result; \<open>write_ok\<close> tells whether opening and writing the file succeeded.
\<close>

definition save_detection_metadata :: "processor \<Rightarrow> string \<Rightarrow> bool \<Rightarrow> (string \<times> json) option \<times> bool" where
  "save_detection_metadata self output_path write_ok =
     (if write_ok then (Some (metadata_file output_path, detection_document self), True)
      else (None, False))"

text \<open>Reading a document along a path of keys, as \<open>doc[k1][k2]...\<close> would.\<close>

fun json_lookup :: "string list \<Rightarrow> json \<Rightarrow> json option" where
  "json_lookup [] j = Some j"
| "json_lookup (k # ks) (JObject kvs) =
     (case map_of kvs k of None \<Rightarrow> None | Some v \<Rightarrow> json_lookup ks v)"
| "json_lookup (k # ks) j = None"

section \<open>Camera controller\<close>

text \<open>The dictionary put on the frame queue (lines 224-231).\<close>

record frame_data =
  rgb :: image
  depth :: depth_array
  depth_colorized :: image
  annotated :: image
  frame_detection_metadata :: "metadata option"
  frame_timestamp :: real

text \<open>A video writer: the file it was opened on and the frames written to it so far.\<close>

record video_writer =
  writer_path :: string
  written :: "image list"

text \<open>
  The fields of \<open>CameraController\<close> that the streaming and recording paths use.
  \<open>pipeline\<close>, \<open>rgb_callback\<close> and \<open>depth_callback\<close> tell whether the attribute holds an
  object; \<open>recording_output_path\<close> is \<open>None\<close> while the attribute does not exist.
\<close>

record controller =
  pipeline :: bool
  is_streaming :: bool
  frame_queue :: "frame_data list"
  rgb_callback :: bool
  depth_callback :: bool
  recording :: bool
  rgb_writer :: "video_writer option"
  depth_writer :: "video_writer option"
  record_start_time :: "real option"
  recording_output_path :: "string option"
  detection_processor :: processor
  detection_enabled :: bool

subsection \<open>The frame queue: \<open>Queue(maxsize=5)\<close>\<close>

datatype queue_error = Full | Empty

definition maxsize :: nat where
  "maxsize = 5"

definition put_nowait :: "'a list \<Rightarrow> 'a \<Rightarrow> queue_error + 'a list" where
  "put_nowait q x = (if maxsize \<le> length q then Inl Full else Inr (q @ [x]))"

definition get_nowait :: "'a list \<Rightarrow> queue_error + ('a \<times> 'a list)" where
  "get_nowait q = (case q of [] \<Rightarrow> Inl Empty | x # xs \<Rightarrow> Inr (x, xs))"

text \<open>Lines 223-235: the put of the streaming worker, with its bare \<open>except: pass\<close>.\<close>

definition push :: "'a list \<Rightarrow> 'a \<Rightarrow> 'a list" where
  "push q x = (case put_nowait q x of Inl _ \<Rightarrow> q | Inr q' \<Rightarrow> q')"

text \<open>\<open>get_latest_frames\<close>: the popped frame, if any, and the queue that remains.\<close>

definition get_latest_frames :: "controller \<Rightarrow> frame_data option \<times> controller" where
  "get_latest_frames s =
     (case get_nowait (frame_queue s) of
        Inl _ \<Rightarrow> (None, s)
      | Inr (x, q) \<Rightarrow> (Some x, s\<lparr>frame_queue := q\<rparr>))"

text \<open>Pushing a sequence of bundles, one after the other, with no pop in between.\<close>

fun push_all :: "'a list \<Rightarrow> 'a list \<Rightarrow> 'a list" where
  "push_all q [] = q"
| "push_all q (x # xs) = push_all (push q x) xs"

subsection \<open>The streaming worker\<close>

text \<open>
  What the camera and the other collaborators do during one pass of the loop.
  \<open>CaptureRaises\<close>: waiting for frames (a timeout included), aligning, converting or
  colouring the depth map raised. \<open>MissingFrame\<close>: the colour or the depth frame is
  absent. \<open>FramePair\<close>: the colour image, the depth image and the coloured depth map.
\<close>

datatype capture = CaptureRaises string | MissingFrame | FramePair image depth_array image

record iteration_env =
  captured :: capture
  detect :: frame_env
  put_time :: real
  rgb_write_raises :: bool
  depth_write_raises :: bool
  rgb_callback_raises :: bool
  depth_callback_raises :: bool

datatype loop_control = Continue | Break

text \<open>\<open>cv2.cvtColor\<close> with \<open>COLOR_BGR2RGB\<close> or \<open>COLOR_RGB2BGR\<close>: both swap the outer channels.\<close>

definition cvtColor :: "image \<Rightarrow> image" where
  "cvtColor img = map (map (\<lambda>(c0, c1, c2). (c2, c1, c0))) img"

text \<open>
  \<open>_record_frame\<close>: an exception of a write is caught here; a failed first write skips
  the second.
\<close>

definition write_depth_frame :: "controller \<Rightarrow> image \<Rightarrow> iteration_env \<Rightarrow> controller" where
  "write_depth_frame s depth_frame env =
     (case depth_writer s of
        None \<Rightarrow> s
      | Some w \<Rightarrow>
          if depth_write_raises env then s
          else s\<lparr>depth_writer := Some (w\<lparr>written := written w @ [depth_frame]\<rparr>)\<rparr>)"

definition record_frame :: "controller \<Rightarrow> image \<Rightarrow> image \<Rightarrow> iteration_env \<Rightarrow> controller" where
  "record_frame s rgb_frame depth_frame env =
     (case rgb_writer s of
        None \<Rightarrow> write_depth_frame s depth_frame env
      | Some w \<Rightarrow>
          if rgb_write_raises env then s
          else write_depth_frame
                 (s\<lparr>rgb_writer := Some (w\<lparr>written := written w @ [rgb_frame]\<rparr>)\<rparr>)
                 depth_frame env)"

text \<open>
  Lines 207-220: detection on the frame, when enabled. \<open>process_frame\<close> catches its own
  exceptions and the colour conversions of well-formed images do not raise, so the
  handler of line 218 is never entered.
\<close>

definition detect_frame ::
  "controller \<Rightarrow> iteration_env \<Rightarrow> image \<Rightarrow> depth_array \<Rightarrow> processor \<times> image \<times> metadata option" where
  "detect_frame s env color_image depth_image =
     (if detection_enabled s then
        (case process_frame (detection_processor s) (detect env) (cvtColor color_image) depth_image of
           (p, annotated_frame, det_metadata) \<Rightarrow>
             (p, cvtColor annotated_frame, Some det_metadata))
      else (detection_processor s, color_image, None))"

text \<open>Lines 237-245: recording of the frame, when a session is active.\<close>

definition handle_recording ::
  "controller \<Rightarrow> iteration_env \<Rightarrow> image \<Rightarrow> image \<Rightarrow> image \<Rightarrow> metadata option \<Rightarrow> controller" where
  "handle_recording s env color_image annotated_frame depth_colormap det_metadata =
     (if recording s then
        let frame_to_record = (if detection_enabled s then annotated_frame else color_image);
            s' = record_frame s frame_to_record depth_colormap env
        in (case det_metadata of
              None \<Rightarrow> s'
            | Some m \<Rightarrow>
                if detection_enabled s'
                then s'\<lparr>detection_processor := add_detection_metadata (detection_processor s') m\<rparr>
                else s')
      else s)"

text \<open>
  One pass of the body of the \<open>while\<close> of \<open>_stream_worker\<close> (lines 183-256), with the
  way it leaves the pass: \<open>Break\<close> is the \<open>break\<close> of the outer handler.
\<close>

definition worker_body :: "controller \<Rightarrow> iteration_env \<Rightarrow> controller \<times> loop_control" where
  "worker_body s env =
     (case captured env of
        CaptureRaises e \<Rightarrow> (s, Break)
      | MissingFrame \<Rightarrow> (s, Continue)
      | FramePair color_image depth_image depth_colormap \<Rightarrow>
          (case detect_frame s env color_image depth_image of
             (p, annotated_frame, det_metadata) \<Rightarrow>
               let s1 = s\<lparr>detection_processor := p\<rparr>;
                   data = \<lparr>rgb = color_image, depth = depth_image,
                           depth_colorized = depth_colormap, annotated = annotated_frame,
                           frame_detection_metadata = det_metadata,
                           frame_timestamp = put_time env\<rparr>;
                   s2 = s1\<lparr>frame_queue := push (frame_queue s1) data\<rparr>;
                   s3 = handle_recording s2 env color_image annotated_frame depth_colormap
                          det_metadata
               in if rgb_callback s3 \<and> rgb_callback_raises env then (s3, Break)
                  else if depth_callback s3 \<and> depth_callback_raises env then (s3, Break)
                  else (s3, Continue)))"

text \<open>
  The loop runs against a sequence of events: a pass of the body with what the
  environment does in it, or a stop request of the controlling side, which clears
  \<open>is_streaming\<close> between two passes. The controlling side acts between passes only:
  interleavings inside a pass are not modelled. \<open>Running\<close> means that the events are used up and
  the loop is still going.
\<close>

datatype worker_event = Iteration iteration_env | StopRequest

datatype worker_exit = Running | ExitedOnCondition | ExitedOnError

fun stream_worker :: "controller \<Rightarrow> worker_event list \<Rightarrow> controller \<times> worker_exit" where
  "stream_worker s [] =
     (s, if is_streaming s \<and> pipeline s then Running else ExitedOnCondition)"
| "stream_worker s (StopRequest # es) = stream_worker (s\<lparr>is_streaming := False\<rparr>) es"
| "stream_worker s (Iteration env # es) =
     (if is_streaming s \<and> pipeline s then
        (case worker_body s env of
           (s', Break) \<Rightarrow> (s', ExitedOnError)
         | (s', Continue) \<Rightarrow> stream_worker s' es)
      else (s, ExitedOnCondition))"

subsection \<open>Recording sessions\<close>

text \<open>
  What can go wrong inside the \<open>try\<close> of \<open>start_recording\<close>: reading the stream
  configuration, opening the main writer, opening the depth writer.
\<close>

datatype start_failure = NoFailure | ConfigRaises | MainWriterRaises | DepthWriterRaises

record start_env =
  failure :: start_failure
  start_time :: real

definition start_recording :: "controller \<Rightarrow> string \<Rightarrow> start_env \<Rightarrow> controller \<times> bool" where
  "start_recording s output_path env =
     (if recording s then (s, False)
      else
        let video_suffix = (if detection_enabled s then ''_detection.avi'' else ''_rgb.avi'');
            main = \<lparr>writer_path = output_path @ video_suffix, written = []\<rparr>;
            dep = \<lparr>writer_path = output_path @ ''_depth.avi'', written = []\<rparr>
        in case failure env of
             ConfigRaises \<Rightarrow> (s, False)
           | MainWriterRaises \<Rightarrow> (s, False)
           | DepthWriterRaises \<Rightarrow> (s\<lparr>rgb_writer := Some main\<rparr>, False)
           | NoFailure \<Rightarrow>
               let s1 = s\<lparr>rgb_writer := Some main, depth_writer := Some dep\<rparr>;
                   s2 = (if detection_enabled s1
                         then s1\<lparr>detection_processor := clear_metadata (detection_processor s1)\<rparr>
                         else s1)
               in (s2\<lparr>recording := True, record_start_time := Some (start_time env),
                       recording_output_path := Some output_path\<rparr>, True))"

text \<open>
  \<open>stop_recording\<close> returns the new controller and the sidecar file it wrote, if any.
\<close>

definition stop_recording :: "controller \<Rightarrow> bool \<Rightarrow> controller \<times> (string \<times> json) option" where
  "stop_recording s write_ok =
     (if \<not> recording s then (s, None)
      else
        let s1 = s\<lparr>recording := False, rgb_writer := None, depth_writer := None\<rparr>;
            file = (case recording_output_path s1 of
                      None \<Rightarrow> None
                    | Some p \<Rightarrow>
                        if detection_enabled s1
                        then fst (save_detection_metadata (detection_processor s1)
                                    (p @ ''_detection.avi'') write_ok)
                        else None);
            s2 = (case record_start_time s1 of
                    None \<Rightarrow> s1
                  | Some t \<Rightarrow> if t \<noteq> 0 then s1\<lparr>record_start_time := None\<rparr> else s1)
        in (s2, file))"

text \<open>The frame numbers carried by a sequence of metadata records, in order.\<close>

fun frame_numbers :: "metadata list \<Rightarrow> nat list" where
  "frame_numbers [] = []"
| "frame_numbers (FrameMetadata n t p ds # ms) = n # frame_numbers ms"
| "frame_numbers (ErrorMetadata e # ms) = frame_numbers ms"

text \<open>
  The number of frames handed to the recorder while the worker runs against a sequence
  of events: the passes that reach line 238 with \<open>recording\<close> set. The recursion is that
  of \<open>stream_worker\<close>.
\<close>

fun is_pair :: "capture \<Rightarrow> bool" where
  "is_pair (FramePair c d m) = True"
| "is_pair (CaptureRaises e) = False"
| "is_pair MissingFrame = False"

fun fed_frames :: "controller \<Rightarrow> worker_event list \<Rightarrow> nat" where
  "fed_frames s [] = 0"
| "fed_frames s (StopRequest # es) = fed_frames (s\<lparr>is_streaming := False\<rparr>) es"
| "fed_frames s (Iteration env # es) =
     (if is_streaming s \<and> pipeline s then
        (if recording s \<and> is_pair (captured env) then 1 else 0)
        + (case worker_body s env of
             (s', Break) \<Rightarrow> 0
           | (s', Continue) \<Rightarrow> fed_frames s' es)
      else 0)"

text \<open>
  The state of a recording session with detection enabled: the frame numbers recorded
  so far are the numbers below the processor's frame counter, in order, and every fed
  frame has left one record.
\<close>

definition session_inv :: "controller \<Rightarrow> nat \<Rightarrow> bool" where
  "session_inv s n =
     (recording s \<and> detection_enabled s
      \<and> frame_numbers (detection_metadata (detection_processor s))
          = [0 ..< frame_count (detection_processor s)]
      \<and> length (detection_metadata (detection_processor s)) = n)"

text \<open>Whether a metadata record is an error marker.\<close>

fun is_error :: "metadata \<Rightarrow> bool" where
  "is_error (ErrorMetadata e) = True"
| "is_error (FrameMetadata n t p ds) = False"

section \<open>Sample states and environments\<close>

text \<open>Python's \<open>repr\<close> of an integer: its decimal digits.\<close>

function show_nat :: "nat \<Rightarrow> string" where
  "show_nat n =
     (if n < 10 then [''0123456789'' ! n]
      else show_nat (n div 10) @ [''0123456789'' ! (n mod 10)])"
  by pat_completeness auto
termination
  by (relation "measure (\<lambda>n. n)") auto

declare show_nat.simps [simp del]

definition show_int :: "int \<Rightarrow> string" where
  "show_int k = (if k < 0 then ''-'' @ show_nat (nat (- k)) else show_nat (nat k))"

text \<open>The controller built by \<open>CameraController.__init__\<close>.\<close>

definition init_controller :: controller where
  "init_controller =
     \<lparr>pipeline = False, is_streaming = False, frame_queue = [], rgb_callback = False,
      depth_callback = False, recording = False, rgb_writer = None, depth_writer = None,
      record_start_time = None, recording_output_path = None,
      detection_processor = init_processor ''PredictModel/best PT 3500.pt'',
      detection_enabled = False\<rparr>"

text \<open>The processor after \<open>load_model\<close> has succeeded.\<close>

definition loaded_processor :: processor where
  "loaded_processor =
     (init_processor ''PredictModel/best PT 3500.pt'')
       \<lparr>model := True, tracker := True, box_annotator := True, label_annotator := True,
        stats := \<lparr>objects_detected = 0, avg_processing_time = 0, model_loaded = True,
                  last_detection_count = 0\<rparr>\<rparr>"

text \<open>A connected, streaming controller with detection enabled.\<close>

definition streaming_controller :: controller where
  "streaming_controller =
     init_controller\<lparr>pipeline := True, is_streaming := True,
       detection_processor := loaded_processor, detection_enabled := True\<rparr>"

text \<open>
  A pass of the loop with the given capture and detector outcome, annotators that leave
  the image alone, class ids printed in decimal, 125 ms of processing, and no failing
  write or callback. The times and the confidence of the samples are values that
  float64 represents exactly and whose differences, products and means need no
  rounding, so on them the arithmetic without rounding is the arithmetic of the program.
\<close>

definition sample_pass ::
  "capture \<Rightarrow> string + (sv_detections \<times> (int \<times> string) list) \<Rightarrow> iteration_env" where
  "sample_pass c d =
     \<lparr>captured = c,
      detect = \<lparr>detector = d, annotate_boxes = (\<lambda>img dets. Inr img),
                annotate_labels = (\<lambda>img dets labels. Inr img),
                key_error_text = show_int, float_arith = exact_arith,
                time_start = 100, time_processed = 100 + 1 / 8, time_stamp = 100 + 1 / 8\<rparr>,
      put_time = 100 + 1 / 4, rgb_write_raises = False, depth_write_raises = False,
      rgb_callback_raises = False, depth_callback_raises = False\<rparr>"

definition sample_pair :: capture where
  "sample_pair = FramePair [[(10, 20, 30), (40, 50, 60)]] [[1500, 1500]] [[(0, 0, 255), (0, 0, 255)]]"

definition no_detections :: "string + (sv_detections \<times> (int \<times> string) list)" where
  "no_detections =
     Inr (\<lparr>xyxy = [], det_class_id = [], det_tracker_id = [], det_confidence = []\<rparr>, [(0, ''box'')])"

definition one_detection :: "string + (sv_detections \<times> (int \<times> string) list)" where
  "one_detection =
     Inr (\<lparr>xyxy = [(0, 0, 2, 1)], det_class_id = [0], det_tracker_id = [7],
           det_confidence = [7 / 8]\<rparr>, [(0, ''box'')])"

section \<open>Properties of the depth estimator\<close>

lemma sum_list_strict_bounds:
  fixes xs :: "real list"
  assumes "xs \<noteq> []" and "\<forall>x\<in>set xs. a < x \<and> x < b"
  shows "a * real (length xs) < sum_list xs \<and> sum_list xs < b * real (length xs)"
  using assms
proof (induction xs)
  case Nil
  then show ?case by simp
next
  case (Cons x xs)
  show ?case
  proof (cases "xs = []")
    case True
    with Cons.prems show ?thesis by simp
  next
    case False
    with Cons have "a * real (length xs) < sum_list xs \<and> sum_list xs < b * real (length xs)"
      by simp
    moreover from Cons.prems have "a < x \<and> x < b" by simp
    ultimately show ?thesis by (simp add: algebra_simps)
  qed
qed

lemma np_mean_strict_bounds:
  assumes "xs \<noteq> []" and "\<forall>x\<in>set xs. a < x \<and> x < b"
  shows "a < np_mean xs \<and> np_mean xs < b"
proof -
  have n: "0 < real (length xs)" using assms(1) by simp
  from sum_list_strict_bounds [OF assms]
  show ?thesis unfolding np_mean_def using n
    by (simp add: pos_less_divide_eq pos_divide_less_eq)
qed

lemma robust_mean_bounds:
  assumes "valid \<noteq> []" and "\<forall>v\<in>set valid. 0 < v \<and> v < 10000"
  shows "0 < robust_mean self valid \<and> robust_mean self valid < 10000"
proof -
  define m where "m = np_mean (map real_of_int valid)"
  define fs where "fs = filter (\<lambda>v. \<bar>real_of_int v - m\<bar>
      \<le> DEPTH_OUTLIER_THRESHOLD self * np_std (map real_of_int valid)) valid"
  have all: "\<forall>x\<in>set (map real_of_int valid). 0 < x \<and> x < 10000"
    using assms(2) by auto
  have m: "0 < m \<and> m < 10000"
    unfolding m_def using np_mean_strict_bounds [OF _ all] assms(1) by simp
  have fsall: "\<forall>x\<in>set (map real_of_int fs). 0 < x \<and> x < 10000"
    using assms(2) unfolding fs_def by auto
  have f: "fs \<noteq> [] \<Longrightarrow> 0 < np_mean (map real_of_int fs) \<and> np_mean (map real_of_int fs) < 10000"
    using np_mean_strict_bounds [OF _ fsall] by simp
  have "robust_mean self valid = (if fs \<noteq> [] then np_mean (map real_of_int fs) else m)"
    unfolding robust_mean_def fs_def m_def by (simp add: Let_def)
  with m f show ?thesis by (cases "fs = []") simp_all
qed

lemma valid_depth_of_range: "\<forall>v\<in>set (valid_depth_of bd). 0 < v \<and> v < 10000"
  by (simp add: valid_depth_of_def)



lemma bbox_depth_of_empty:
  "cx2 \<le> cx1 \<or> cy2 \<le> cy1 \<Longrightarrow> 0 \<le> cx1 \<Longrightarrow> 0 \<le> cy1 \<Longrightarrow> valid_depth_of (bbox_depth_of a (cx1, cy1, cx2, cy2)) = []"
  by (auto simp: valid_depth_of_def bbox_depth_of_def slice_def)

lemma center_bounds_nonneg:
  "center_bounds self a b = (cx1, cy1, cx2, cy2) \<Longrightarrow> 0 \<le> cx1 \<and> 0 \<le> cy1"
  by (cases b) (auto simp: center_bounds_def Let_def)

lemma estimate_unfold:
  assumes "valid_depth_of (bbox_depth_of a (center_bounds self a b)) \<noteq> []"
  shows "calculate_depth_robust_center self a b =
    (let valid_depth = valid_depth_of (bbox_depth_of a (center_bounds self a b))
     in if length valid_depth < 5 then 0 else robust_mean self valid_depth)"
proof -
  obtain cx1 cy1 cx2 cy2 where cb: "center_bounds self a b = (cx1, cy1, cx2, cy2)"
    by (cases "center_bounds self a b") auto
  have nn: "0 \<le> cx1" "0 \<le> cy1" using center_bounds_nonneg [OF cb] by simp_all
  have "\<not> (cx2 \<le> cx1 \<or> cy2 \<le> cy1)"
  proof
    assume "cx2 \<le> cx1 \<or> cy2 \<le> cy1"
    from bbox_depth_of_empty [OF this nn] assms cb show False
      by simp
  qed
  then show ?thesis
    by (simp add: calculate_depth_robust_center_def cb Let_def)
qed

lemma estimate_empty:
  assumes "valid_depth_of (bbox_depth_of a (center_bounds self a b)) = []"
  shows "calculate_depth_robust_center self a b = 0"
  using assms
  by (cases "center_bounds self a b") (simp add: calculate_depth_robust_center_def Let_def)


lemma estimate_few:
  assumes "length (valid_depth_of (bbox_depth_of D (center_bounds self D B))) < 5"
  shows "calculate_depth_robust_center self D B = 0"
proof (cases "valid_depth_of (bbox_depth_of D (center_bounds self D B)) = []")
  case True
  then show ?thesis by (rule estimate_empty)
next
  case False
  from estimate_unfold [OF False] assms show ?thesis by (simp add: Let_def)
qed

text \<open>
  Claim C3, as amended. The samples gathered from the shrunk centre region are exactly
  its readings strictly between 0 and 10000 mm (a reading of 10000 itself is left out),
  and when fewer than 5 of them exist the estimate is 0.0.
\<close>

theorem few_valid_samples_give_zero:
  assumes "length (valid_depth_of (bbox_depth_of D (center_bounds self D B))) < 5"
  shows "calculate_depth_robust_center self D B = 0
    \<and> set (valid_depth_of (bbox_depth_of D (center_bounds self D B)))
        = {v \<in> set (concat (bbox_depth_of D (center_bounds self D B))). 0 < v \<and> v < 10000}"
proof
  show "calculate_depth_robust_center self D B = 0" using assms by (rule estimate_few)
  show "set (valid_depth_of (bbox_depth_of D (center_bounds self D B)))
        = {v \<in> set (concat (bbox_depth_of D (center_bounds self D B))). 0 < v \<and> v < 10000}"
    unfolding valid_depth_of_def by (rule set_filter)
qed

lemma bounds_row_with_10000: "center_bounds (init_processor ''best.pt'') [[0, 5000, 5000, 5000, 5000, 10000, 0]] (0, 0, 7, 1) = (1, 0, 6, 1)"
  by (simp add: center_bounds_def init_processor_def trunc_int_def shape0_def shape1_def Let_def)

lemma region_row_with_10000: "bbox_depth_of [[0, 5000, 5000, 5000, 5000, 10000, 0]] (1, 0, 6, 1) = [[5000, 5000, 5000, 5000, 10000]]"
  by (simp add: bbox_depth_of_def slice_def)

text \<open>
  Witness for C3: a one-row map whose centre region holds four readings of 5000 and one
  of 10000.
\<close>

theorem few_valid_samples_give_zero_witness:
  "length (valid_depth_of (bbox_depth_of [[0, 5000, 5000, 5000, 5000, 10000, 0]]
      (center_bounds (init_processor ''best.pt'') [[0, 5000, 5000, 5000, 5000, 10000, 0]] (0, 0, 7, 1)))) < 5
   \<and> calculate_depth_robust_center (init_processor ''best.pt'')
        [[0, 5000, 5000, 5000, 5000, 10000, 0]] (0, 0, 7, 1) = 0"
  using few_valid_samples_give_zero [of "[[0, 5000, 5000, 5000, 5000, 10000, 0]]"
      "init_processor ''best.pt''" "(0, 0, 7, 1)"]
  by (simp add: bounds_row_with_10000 region_row_with_10000 valid_depth_of_def)

text \<open>
  Claim C3 as worded, with the interval \<open>(0, 10000]\<close>, fails on the same map: the
  region holds five readings in \<open>(0, 10000]\<close>, the code gathers only four of them and
  returns 0.0.
\<close>

theorem spec_interval_counterexample:
  "valid_depth_of (bbox_depth_of [[0, 5000, 5000, 5000, 5000, 10000, 0]]
      (center_bounds (init_processor ''best.pt'') [[0, 5000, 5000, 5000, 5000, 10000, 0]] (0, 0, 7, 1)))
   \<noteq> spec_valid_depth_of (bbox_depth_of [[0, 5000, 5000, 5000, 5000, 10000, 0]]
      (center_bounds (init_processor ''best.pt'') [[0, 5000, 5000, 5000, 5000, 10000, 0]] (0, 0, 7, 1)))
   \<and> length (spec_valid_depth_of (bbox_depth_of [[0, 5000, 5000, 5000, 5000, 10000, 0]]
      (center_bounds (init_processor ''best.pt'') [[0, 5000, 5000, 5000, 5000, 10000, 0]] (0, 0, 7, 1)))) = 5
   \<and> calculate_depth_robust_center (init_processor ''best.pt'')
        [[0, 5000, 5000, 5000, 5000, 10000, 0]] (0, 0, 7, 1) = 0"
  by (simp add: bounds_row_with_10000 region_row_with_10000 valid_depth_of_def spec_valid_depth_of_def calculate_depth_robust_center_def)

text \<open>
  Claim C10. For every depth map and every box, degenerate and out-of-bounds boxes
  included, the estimate is exactly 0.0 or lies strictly between 0 and 10000 mm, also
  when the unfiltered mean is returned.
\<close>

theorem estimate_is_zero_or_in_range:
  "calculate_depth_robust_center self D B = 0
   \<or> (0 < calculate_depth_robust_center self D B \<and> calculate_depth_robust_center self D B < 10000)"
proof (cases "length (valid_depth_of (bbox_depth_of D (center_bounds self D B))) < 5")
  case True
  then show ?thesis using estimate_few by blast
next
  case False
  then have ne: "valid_depth_of (bbox_depth_of D (center_bounds self D B)) \<noteq> []" by auto
  from estimate_unfold [OF ne] False
  have "calculate_depth_robust_center self D B
      = robust_mean self (valid_depth_of (bbox_depth_of D (center_bounds self D B)))"
    by (simp add: Let_def)
  with robust_mean_bounds [OF ne valid_depth_of_range] show ?thesis by simp
qed


subsection \<open>The estimator over a given arithmetic\<close>



lemma estimate_with_few:
  assumes "length (valid_depth_of (bbox_depth_of D (center_bounds self D B))) < 5"
  shows "calculate_depth_robust_center_with ops self D B = 0"
  using assms
  by (cases "center_bounds self D B")
    (simp add: calculate_depth_robust_center_with_def Let_def)
















section \<open>Properties of the frame queue and of recording start\<close>

lemma push_eq: "push q x = (if length q < maxsize then q @ [x] else q)"
  by (simp add: push_def put_nowait_def)

lemma push_all_take:
  "length q \<le> maxsize \<Longrightarrow> push_all q xs = q @ take (maxsize - length q) xs"
proof (induction xs arbitrary: q)
  case Nil
  then show ?case by simp
next
  case (Cons x xs)
  show ?case
  proof (cases "length q < maxsize")
    case True
    then have "length (push q x) \<le> maxsize" by (simp add: push_eq)
    from Cons.IH [OF this] True show ?thesis
      by (simp add: push_eq take_Cons' Suc_diff_Suc)
  next
    case False
    with Cons.prems have eq: "length q = maxsize" by simp
    then have "push q x = q" by (simp add: push_eq)
    with Cons.IH [of q] Cons.prems eq show ?thesis by simp
  qed
qed

text \<open>
  Claim C1, as amended. The frame queue has capacity 5. A push onto a queue that is not
  full appends the bundle; a push onto a full queue leaves the queue as it is, so the
  new bundle is the one that is lost, and the producer is not blocked. After any
  sequence of pushes onto the empty queue with no pop, the queue holds the first 5
  bundles pushed, in push order.
\<close>

theorem full_bus_skips_new_bundle:
  "push q x = (if length q < maxsize then q @ [x] else q)
   \<and> push_all [] xs = take maxsize xs
   \<and> maxsize = 5"
  using push_all_take [of "[]" xs] by (simp add: push_eq maxsize_def)

text \<open>
  Witness for C1: a sixth push onto a full queue, and 8 pushes onto the empty queue.
\<close>

theorem full_bus_skips_new_bundle_witness:
  "push [1, 2, 3, 4, 5 :: nat] 6 = [1, 2, 3, 4, 5]
   \<and> push_all [] [1, 2, 3, 4, 5, 6, 7, 8 :: nat] = [1, 2, 3, 4, 5]"
  using full_bus_skips_new_bundle [of "[1, 2, 3, 4, 5 :: nat]" 6 "[1, 2, 3, 4, 5, 6, 7, 8 :: nat]"]
  by (simp add: maxsize_def)

text \<open>
  Claim C1 as worded fails: after 8 pushes the queue does not hold the 5 most recent
  bundles, and a push onto a full queue does not discard the oldest one.
\<close>

theorem drop_oldest_counterexample:
  "push_all [] [1, 2, 3, 4, 5, 6, 7, 8 :: nat] \<noteq> [4, 5, 6, 7, 8]
   \<and> push [1, 2, 3, 4, 5 :: nat] 6 \<noteq> [2, 3, 4, 5, 6]"
  by (simp add: push_def put_nowait_def maxsize_def)

text \<open>
  Claim C9. While a recording session is active, \<open>start_recording\<close> returns failure
  and the whole controller state, with its writers, metadata accumulator, frame counter,
  start time and output path, is unchanged.
\<close>

theorem start_while_recording_fails:
  assumes "recording s"
  shows "start_recording s output_path env = (s, False)"
  using assms by (simp add: start_recording_def)

text \<open>
  Witness for C9: a second start on a controller that is recording.
\<close>

theorem start_while_recording_fails_witness:
  "recording (streaming_controller\<lparr>recording := True\<rparr>)
   \<and> start_recording (streaming_controller\<lparr>recording := True\<rparr>) ''recording''
        \<lparr>failure = NoFailure, start_time = 200\<rparr>
      = (streaming_controller\<lparr>recording := True\<rparr>, False)"
  using start_while_recording_fails [of "streaming_controller\<lparr>recording := True\<rparr>" "''recording''"
      "\<lparr>failure = NoFailure, start_time = 200\<rparr>"]
  by simp

lemma cvtColor_twice: "cvtColor (cvtColor img) = img"
proof -
  have "(\<lambda>(c0, c1, c2). (c2, c1, c0)) \<circ> (\<lambda>(c0, c1, c2). (c2, c1, c0)) = (id :: pixel \<Rightarrow> pixel)"
    by (auto simp: fun_eq_iff)
  then show ?thesis by (simp add: cvtColor_def)
qed

lemma process_frame_detector_raises:
  "detector env = Inl e \<Longrightarrow>
   process_frame self env rgb_frame depth_frame =
     (self, rgb_frame,
      ErrorMetadata (if model self then ''Processing failed: '' @ e else ''Model not loaded''))"
  by (simp add: process_frame_def try_process_def)

lemma frame_queue_write_depth [simp]:
  "frame_queue (write_depth_frame s d env) = frame_queue s"
  by (simp add: write_depth_frame_def split: option.splits)

lemma frame_queue_record_frame [simp]:
  "frame_queue (record_frame s f d env) = frame_queue s"
  by (simp add: record_frame_def split: option.splits)

lemma frame_queue_handle_recording [simp]:
  "frame_queue (handle_recording s env c a d m) = frame_queue s"
  by (simp add: handle_recording_def Let_def split: option.splits)

lemma callbacks_write_depth [simp]:
  "rgb_callback (write_depth_frame s d env) = rgb_callback s"
  "depth_callback (write_depth_frame s d env) = depth_callback s"
  by (simp_all add: write_depth_frame_def split: option.splits)

lemma callbacks_record_frame [simp]:
  "rgb_callback (record_frame s f d env) = rgb_callback s"
  "depth_callback (record_frame s f d env) = depth_callback s"
  by (simp_all add: record_frame_def split: option.splits)

lemma callbacks_handle_recording [simp]:
  "rgb_callback (handle_recording s env c a d m) = rgb_callback s"
  "depth_callback (handle_recording s env c a d m) = depth_callback s"
  by (simp_all add: handle_recording_def Let_def split: option.splits)

lemma worker_body_control:
  assumes "captured env = FramePair c d m"
  shows "snd (worker_body s env) =
     (if (rgb_callback s \<and> rgb_callback_raises env) \<or> (depth_callback s \<and> depth_callback_raises env)
      then Break else Continue)"
  using assms by (simp add: worker_body_def Let_def split: prod.splits)

lemma worker_body_queue:
  assumes "captured env = FramePair c d m"
  shows "frame_queue (fst (worker_body s env)) =
     push (frame_queue s)
       \<lparr>rgb = c, depth = d, depth_colorized = m,
        annotated = fst (snd (detect_frame s env c d)),
        frame_detection_metadata = snd (snd (detect_frame s env c d)),
        frame_timestamp = put_time env\<rparr>"
  using assms by (simp add: worker_body_def Let_def split: prod.splits)

section \<open>Properties of the streaming worker\<close>

lemma detect_frame_detector_raises:
  assumes "detector (detect env) = Inl e" and "detection_enabled s"
  shows "detect_frame s env c d =
     (detection_processor s, c,
      Some (ErrorMetadata (if model (detection_processor s) then ''Processing failed: '' @ e
                           else ''Model not loaded'')))"
  using assms by (simp add: detect_frame_def process_frame_detector_raises cvtColor_twice)

text \<open>
  Claim C6. When the detector raises on a frame, \<open>process_frame\<close> returns the frame it
  was given and an error record, with the processor unchanged; the worker puts the raw
  colour image on the queue as the annotated frame, with that error record, and goes on
  to the next pass of its loop.
\<close>

theorem detector_error_passes_raw_frame:
  assumes "detector (detect env) = Inl e"
    and "captured env = FramePair color_image depth_image depth_colormap"
    and "detection_enabled s" and "is_streaming s" and "pipeline s"
    and "\<not> (rgb_callback s \<and> rgb_callback_raises env)"
    and "\<not> (depth_callback s \<and> depth_callback_raises env)"
  shows "process_frame self (detect env) rgb_frame depth_image =
           (self, rgb_frame,
            ErrorMetadata (if model self then ''Processing failed: '' @ e else ''Model not loaded''))
    \<and> frame_queue (fst (worker_body s env)) =
         push (frame_queue s)
           \<lparr>rgb = color_image, depth = depth_image, depth_colorized = depth_colormap,
            annotated = color_image,
            frame_detection_metadata =
              Some (ErrorMetadata (if model (detection_processor s) then ''Processing failed: '' @ e
                                   else ''Model not loaded'')),
            frame_timestamp = put_time env\<rparr>
    \<and> stream_worker s (Iteration env # es) = stream_worker (fst (worker_body s env)) es"
proof (intro conjI)
  show "process_frame self (detect env) rgb_frame depth_image =
           (self, rgb_frame,
            ErrorMetadata (if model self then ''Processing failed: '' @ e else ''Model not loaded''))"
    using assms(1) by (rule process_frame_detector_raises)
  show "frame_queue (fst (worker_body s env)) =
         push (frame_queue s)
           \<lparr>rgb = color_image, depth = depth_image, depth_colorized = depth_colormap,
            annotated = color_image,
            frame_detection_metadata =
              Some (ErrorMetadata (if model (detection_processor s) then ''Processing failed: '' @ e
                                   else ''Model not loaded'')),
            frame_timestamp = put_time env\<rparr>"
    unfolding worker_body_queue [OF assms(2)] detect_frame_detector_raises [OF assms(1,3)]
    by simp
  have "snd (worker_body s env) = Continue"
    using worker_body_control [OF assms(2), of s] assms(6,7) by simp
  then show "stream_worker s (Iteration env # es) = stream_worker (fst (worker_body s env)) es"
    using assms(4,5) by (simp add: split_beta)
qed

lemma streaming_controller_simps:
  "pipeline streaming_controller" "is_streaming streaming_controller"
  "detection_enabled streaming_controller" "\<not> recording streaming_controller"
  "\<not> rgb_callback streaming_controller" "\<not> depth_callback streaming_controller"
  "frame_queue streaming_controller = []"
  "detection_processor streaming_controller = loaded_processor"
  by (simp_all add: streaming_controller_def init_controller_def)

lemma loaded_processor_simps:
  "model loaded_processor" "frame_count loaded_processor = 0"
  "detection_metadata loaded_processor = []"
  by (simp_all add: loaded_processor_def init_processor_def)

lemma sample_pass_simps:
  "captured (sample_pass c d) = c" "detector (detect (sample_pass c d)) = d"
  "put_time (sample_pass c d) = 100 + 1 / 4"
  "\<not> rgb_callback_raises (sample_pass c d)" "\<not> depth_callback_raises (sample_pass c d)"
  "\<not> rgb_write_raises (sample_pass c d)" "\<not> depth_write_raises (sample_pass c d)"
  by (simp_all add: sample_pass_def)

text \<open>
  Witness for C6: a pass of the loop in which the detector raises.
\<close>

theorem detector_error_passes_raw_frame_witness:
  "detector (detect (sample_pass sample_pair (Inl ''CUDA out of memory''))) = Inl ''CUDA out of memory''
   \<and> detection_enabled streaming_controller \<and> is_streaming streaming_controller
   \<and> pipeline streaming_controller
   \<and> process_frame loaded_processor (detect (sample_pass sample_pair (Inl ''CUDA out of memory'')))
        [[(30, 20, 10), (60, 50, 40)]] [[1500, 1500]]
      = (loaded_processor, [[(30, 20, 10), (60, 50, 40)]],
         ErrorMetadata ''Processing failed: CUDA out of memory'')
   \<and> frame_queue (fst (worker_body streaming_controller
         (sample_pass sample_pair (Inl ''CUDA out of memory'')))) =
       [\<lparr>rgb = [[(10, 20, 30), (40, 50, 60)]], depth = [[1500, 1500]],
         depth_colorized = [[(0, 0, 255), (0, 0, 255)]],
         annotated = [[(10, 20, 30), (40, 50, 60)]],
         frame_detection_metadata = Some (ErrorMetadata ''Processing failed: CUDA out of memory''),
         frame_timestamp = 100 + 1 / 4\<rparr>]
   \<and> stream_worker streaming_controller
         [Iteration (sample_pass sample_pair (Inl ''CUDA out of memory'')),
          Iteration (sample_pass MissingFrame no_detections)]
       = stream_worker (fst (worker_body streaming_controller
           (sample_pass sample_pair (Inl ''CUDA out of memory''))))
           [Iteration (sample_pass MissingFrame no_detections)]"
proof -
  let ?env = "sample_pass sample_pair (Inl ''CUDA out of memory'')"
  have h1: "detector (detect ?env) = Inl ''CUDA out of memory''"
    by (simp add: sample_pass_simps)
  have h2: "captured ?env = FramePair [[(10, 20, 30), (40, 50, 60)]] [[1500, 1500]]
      [[(0, 0, 255), (0, 0, 255)]]"
    by (simp add: sample_pass_simps sample_pair_def)
  have h6: "\<not> (rgb_callback streaming_controller \<and> rgb_callback_raises ?env)"
    and h7: "\<not> (depth_callback streaming_controller \<and> depth_callback_raises ?env)"
    by (simp_all add: streaming_controller_simps)
  from detector_error_passes_raw_frame [OF h1 h2 streaming_controller_simps(3)
      streaming_controller_simps(2) streaming_controller_simps(1) h6 h7,
      of loaded_processor "[[(30, 20, 10), (60, 50, 40)]]"
         "[Iteration (sample_pass MissingFrame no_detections)]"]
  show ?thesis
    by (simp add: streaming_controller_simps loaded_processor_simps sample_pass_simps
        push_def put_nowait_def maxsize_def)
qed

lemma write_depth_frame_flags [simp]:
  "is_streaming (write_depth_frame s d env) = is_streaming s"
  "pipeline (write_depth_frame s d env) = pipeline s"
  "recording (write_depth_frame s d env) = recording s"
  "detection_enabled (write_depth_frame s d env) = detection_enabled s"
  "recording_output_path (write_depth_frame s d env) = recording_output_path s"
  "detection_processor (write_depth_frame s d env) = detection_processor s"
  "rgb_writer (write_depth_frame s d env) = rgb_writer s"
  by (simp_all add: write_depth_frame_def split: option.splits)

lemma record_frame_flags [simp]:
  "is_streaming (record_frame s f d env) = is_streaming s"
  "pipeline (record_frame s f d env) = pipeline s"
  "recording (record_frame s f d env) = recording s"
  "detection_enabled (record_frame s f d env) = detection_enabled s"
  "recording_output_path (record_frame s f d env) = recording_output_path s"
  "detection_processor (record_frame s f d env) = detection_processor s"
  "map_option writer_path (rgb_writer (record_frame s f d env)) = map_option writer_path (rgb_writer s)"
  by (auto simp: record_frame_def split: option.splits)

lemma handle_recording_flags [simp]:
  "is_streaming (handle_recording s env c a d m) = is_streaming s"
  "pipeline (handle_recording s env c a d m) = pipeline s"
  "recording (handle_recording s env c a d m) = recording s"
  "detection_enabled (handle_recording s env c a d m) = detection_enabled s"
  "recording_output_path (handle_recording s env c a d m) = recording_output_path s"
  "map_option writer_path (rgb_writer (handle_recording s env c a d m)) = map_option writer_path (rgb_writer s)"
  by (simp_all add: handle_recording_def Let_def split: option.splits)

lemma worker_body_flags [simp]:
  "is_streaming (fst (worker_body s env)) = is_streaming s"
  "pipeline (fst (worker_body s env)) = pipeline s"
  "recording (fst (worker_body s env)) = recording s"
  "detection_enabled (fst (worker_body s env)) = detection_enabled s"
  "recording_output_path (fst (worker_body s env)) = recording_output_path s"
  "map_option writer_path (rgb_writer (fst (worker_body s env))) = map_option writer_path (rgb_writer s)"
  by (simp_all add: worker_body_def Let_def split: capture.splits prod.splits)

lemma exit_on_error_streaming:
  "stream_worker s es = (s', ExitedOnError) \<Longrightarrow> is_streaming s'"
proof (induction s es rule: stream_worker.induct)
  case (1 s)
  then show ?case by (simp split: if_splits)
next
  case (2 s es)
  then show ?case by simp
next
  case (3 s env es)
  show ?case
  proof (cases "is_streaming s \<and> pipeline s")
    case False
    with "3.prems" show ?thesis by simp
  next
    case True
    obtain s1 c where wb: "worker_body s env = (s1, c)" by (cases "worker_body s env")
    have s1: "is_streaming s1" using worker_body_flags(1) [of s env] True wb by simp
    show ?thesis
    proof (cases c)
      case Continue
      with "3.IH" [OF True wb [symmetric] Continue] "3.prems" True wb show ?thesis by simp
    next
      case Break
      with "3.prems" True wb s1 show ?thesis by simp
    qed
  qed
qed

text \<open>
  Claim C2, as amended. An error raised while waiting for, aligning or converting the
  frame pair, a wait timeout included, ends the loop at once without any stop request.
  A pass that has its frame pair and whose callbacks do not raise continues the loop,
  whatever the detector, the queue and the writers do. No pass of the loop writes
  \<open>is_streaming\<close>, and whenever the loop has ended on an error \<open>is_streaming\<close> is still set.
\<close>

theorem capture_error_ends_loop_flag_kept:
  "(is_streaming s \<and> pipeline s \<and> captured env = CaptureRaises e
      \<longrightarrow> stream_worker s (Iteration env # es) = (s, ExitedOnError))
   \<and> (captured env = FramePair c d m
        \<and> \<not> (rgb_callback s \<and> rgb_callback_raises env)
        \<and> \<not> (depth_callback s \<and> depth_callback_raises env)
      \<longrightarrow> snd (worker_body s env) = Continue)
   \<and> is_streaming (fst (worker_body s env)) = is_streaming s
   \<and> (stream_worker s es = (s', ExitedOnError) \<longrightarrow> is_streaming s')"
proof (intro conjI impI)
  assume "is_streaming s \<and> pipeline s \<and> captured env = CaptureRaises e"
  then show "stream_worker s (Iteration env # es) = (s, ExitedOnError)"
    by (simp add: worker_body_def)
next
  assume a: "captured env = FramePair c d m
        \<and> \<not> (rgb_callback s \<and> rgb_callback_raises env)
        \<and> \<not> (depth_callback s \<and> depth_callback_raises env)"
  then have "captured env = FramePair c d m" by simp
  from worker_body_control [OF this, of s] a show "snd (worker_body s env) = Continue" by simp
next
  show "is_streaming (fst (worker_body s env)) = is_streaming s" by simp
next
  assume "stream_worker s es = (s', ExitedOnError)"
  then show "is_streaming s'" by (rule exit_on_error_streaming)
qed

text \<open>
  Claim C2 as worded fails: a wait timeout in the first pass ends the loop although no
  stop was requested and a frame pair was still to come, and \<open>is_streaming\<close> stays set.
\<close>

theorem timeout_ends_loop_counterexample:
  "stream_worker streaming_controller
     [Iteration (sample_pass (CaptureRaises ''Frame did not arrive within 1000'') no_detections),
      Iteration (sample_pass sample_pair no_detections)]
   = (streaming_controller, ExitedOnError)
   \<and> is_streaming streaming_controller"
  by (simp add: worker_body_def sample_pass_simps streaming_controller_simps)

text \<open>
  Witness for C2: a timeout followed by a frame pair, and a pass whose detector raises.
\<close>

theorem capture_error_ends_loop_flag_kept_witness:
  "is_streaming streaming_controller \<and> pipeline streaming_controller
   \<and> captured (sample_pass (CaptureRaises ''Frame did not arrive within 1000'') no_detections)
       = CaptureRaises ''Frame did not arrive within 1000''
   \<and> stream_worker streaming_controller
       [Iteration (sample_pass (CaptureRaises ''Frame did not arrive within 1000'') no_detections),
        Iteration (sample_pass sample_pair no_detections)]
     = (streaming_controller, ExitedOnError)
   \<and> snd (worker_body streaming_controller (sample_pass sample_pair (Inl ''CUDA out of memory'')))
     = Continue"
proof -
  let ?t = "sample_pass (CaptureRaises ''Frame did not arrive within 1000'') no_detections"
  let ?f = "sample_pass sample_pair (Inl ''CUDA out of memory'')"
  have run: "stream_worker streaming_controller [Iteration ?t, Iteration (sample_pass sample_pair no_detections)]
     = (streaming_controller, ExitedOnError)"
    using capture_error_ends_loop_flag_kept [of streaming_controller ?t
        "''Frame did not arrive within 1000''" "[Iteration (sample_pass sample_pair no_detections)]"]
    by (simp add: sample_pass_simps streaming_controller_simps)
  have fl: "is_streaming streaming_controller"
    using capture_error_ends_loop_flag_kept [of streaming_controller _ _
        "[Iteration ?t, Iteration (sample_pass sample_pair no_detections)]" _ _ _ streaming_controller] run
    by simp
  have cont: "snd (worker_body streaming_controller ?f) = Continue"
    using capture_error_ends_loop_flag_kept [of streaming_controller ?f _ _
        "[[(10, 20, 30), (40, 50, 60)]]" "[[1500, 1500]]" "[[(0, 0, 255), (0, 0, 255)]]"]
    by (simp add: sample_pass_simps streaming_controller_simps sample_pair_def)
  from run fl cont show ?thesis by (simp add: sample_pass_simps streaming_controller_simps)
qed

section \<open>Properties of recording sessions\<close>

lemma frame_numbers_append:
  "frame_numbers (xs @ ys) = frame_numbers xs @ frame_numbers ys"
  by (induction xs rule: frame_numbers.induct) simp_all

lemma frame_numbers_length:
  "length (frame_numbers ms) + length (filter is_error ms) = length ms"
  by (induction ms rule: frame_numbers.induct) simp_all

lemma process_frame_cases:
  assumes "process_frame p env f d = (p', a, m)"
  shows "(is_error m \<and> p' = p)
    \<or> (frame_numbers [m] = [frame_count p] \<and> frame_count p' = Suc (frame_count p)
        \<and> detection_metadata p' = detection_metadata p)"
  using assms
  by (auto simp: process_frame_def try_process_def Let_def
      split: if_splits sum.splits prod.splits)

lemma worker_body_inv:
  assumes "session_inv s n"
  shows "session_inv (fst (worker_body s env)) (n + (if is_pair (captured env) then 1 else 0))"
proof (cases "captured env")
  case (CaptureRaises e)
  with assms show ?thesis by (simp add: worker_body_def)
next
  case MissingFrame
  with assms show ?thesis by (simp add: worker_body_def)
next
  case (FramePair c d cm)
  from assms have rec: "recording s" and en: "detection_enabled s"
    and fn: "frame_numbers (detection_metadata (detection_processor s))
          = [0 ..< frame_count (detection_processor s)]"
    and len: "length (detection_metadata (detection_processor s)) = n"
    by (simp_all add: session_inv_def)
  obtain p' a m where pf: "process_frame (detection_processor s) (detect env) (cvtColor c) d = (p', a, m)"
    by (cases "process_frame (detection_processor s) (detect env) (cvtColor c) d") auto
  have dp: "detection_processor (fst (worker_body s env)) = add_detection_metadata p' m"
    using FramePair rec en pf
    by (simp add: worker_body_def detect_frame_def handle_recording_def Let_def)
  from process_frame_cases [OF pf] show ?thesis
  proof
    assume e: "is_error m \<and> p' = detection_processor s"
    then have "frame_numbers [m] = []" by (cases m) simp_all
    with e rec en fn len FramePair dp show ?thesis
      by (simp add: session_inv_def add_detection_metadata_def frame_numbers_append)
  next
    assume "frame_numbers [m] = [frame_count (detection_processor s)]
        \<and> frame_count p' = Suc (frame_count (detection_processor s))
        \<and> detection_metadata p' = detection_metadata (detection_processor s)"
    with rec en fn len FramePair dp show ?thesis
      by (simp add: session_inv_def add_detection_metadata_def frame_numbers_append)
  qed
qed

lemma session_inv_stop [simp]: "session_inv (s\<lparr>is_streaming := False\<rparr>) n = session_inv s n"
  by (simp add: session_inv_def)

lemma stream_worker_inv:
  "session_inv s n \<Longrightarrow> session_inv (fst (stream_worker s es)) (n + fed_frames s es)"
proof (induction s es arbitrary: n rule: stream_worker.induct)
  case (1 s)
  then show ?case by simp
next
  case (2 s es)
  then show ?case by simp
next
  case (3 s env es)
  show ?case
  proof (cases "is_streaming s \<and> pipeline s")
    case False
    then have a: "stream_worker s (Iteration env # es) = (s, ExitedOnCondition)"
      and b: "fed_frames s (Iteration env # es) = 0"
      by auto
    show ?thesis unfolding a b using "3.prems" by simp
  next
    case True
    obtain s1 c where wb: "worker_body s env = (s1, c)" by (cases "worker_body s env")
    from "3.prems" have rec: "recording s" by (simp add: session_inv_def)
    have i1: "session_inv s1 (n + (if is_pair (captured env) then 1 else 0))"
      using worker_body_inv [OF "3.prems", of env] wb by simp
    show ?thesis
    proof (cases c)
      case Break
      with True wb i1 rec show ?thesis by simp
    next
      case Continue
      from "3.IH" [OF True wb [symmetric] Continue i1] True wb Continue rec
      show ?thesis by (simp add: add.assoc)
    qed
  qed
qed

lemma start_recording_inv:
  assumes "start_recording s0 p env = (s1, True)" and "detection_enabled s0"
  shows "session_inv s1 0"
  using assms
  by (auto simp: start_recording_def session_inv_def clear_metadata_def Let_def
      split: if_splits start_failure.splits)

text \<open>
  Claim C5, as amended. In a recording session started with detection enabled, every
  frame fed to the recorder leaves exactly one record, and the frame numbers carried by
  the records are exactly 0, 1, ... up to the number of fed frames minus the number of
  error records, in order and without gaps, whatever the state of the frame queue. With
  no detection error they are 0 to N-1 for N fed frames.
\<close>

theorem session_frame_numbers:
  assumes "start_recording s0 p senv = (s1, True)" and "detection_enabled s0"
    and "stream_worker s1 es = (s2, ex)"
  shows "length (detection_metadata (detection_processor s2)) = fed_frames s1 es
    \<and> frame_numbers (detection_metadata (detection_processor s2))
        = [0 ..< fed_frames s1 es
                  - length (filter is_error (detection_metadata (detection_processor s2)))]"
proof -
  from stream_worker_inv [OF start_recording_inv [OF assms(1,2)], of es] assms(3)
  have inv: "session_inv s2 (fed_frames s1 es)" by simp
  let ?md = "detection_metadata (detection_processor s2)"
  from inv have len: "length ?md = fed_frames s1 es"
    and fn: "frame_numbers ?md = [0 ..< frame_count (detection_processor s2)]"
    by (simp_all add: session_inv_def)
  from fn have "length (frame_numbers ?md) = frame_count (detection_processor s2)" by simp
  with frame_numbers_length [of ?md] len
  have "frame_count (detection_processor s2) = fed_frames s1 es - length (filter is_error ?md)"
    by simp
  with len fn show ?thesis by simp
qed

lemma start_sample:
  "start_recording streaming_controller ''recording'' \<lparr>failure = NoFailure, start_time = 200\<rparr>
    = (streaming_controller\<lparr>rgb_writer := Some \<lparr>writer_path = ''recording_detection.avi'', written = []\<rparr>,
         depth_writer := Some \<lparr>writer_path = ''recording_depth.avi'', written = []\<rparr>,
         detection_processor := clear_metadata loaded_processor,
         recording := True, record_start_time := Some 200,
         recording_output_path := Some ''recording''\<rparr>, True)"
  by (simp add: start_recording_def streaming_controller_simps Let_def)

lemmas sample_defs = worker_body_def detect_frame_def handle_recording_def record_frame_def
  write_depth_frame_def process_frame_def try_process_def sample_pass_def sample_pair_def
  no_detections_def streaming_controller_def init_controller_def loaded_processor_def
  init_processor_def clear_metadata_def add_detection_metadata_def push_def put_nowait_def
  maxsize_def cvtColor_def start_recording_def exact_arith_def np_mean_def Let_def

lemma sample_session_run:
  "detection_metadata (detection_processor (fst (stream_worker
      (fst (start_recording streaming_controller ''recording'' \<lparr>failure = NoFailure, start_time = 200\<rparr>))
      [Iteration (sample_pass sample_pair (Inl ''CUDA out of memory'')),
       Iteration (sample_pass sample_pair no_detections)])))
   = [ErrorMetadata ''Processing failed: CUDA out of memory'',
      FrameMetadata 0 (100 + 1 / 8) 125 []]"
  by (simp add: sample_defs)

lemma sample_session_fed:
  "fed_frames
      (fst (start_recording streaming_controller ''recording'' \<lparr>failure = NoFailure, start_time = 200\<rparr>))
      [Iteration (sample_pass sample_pair (Inl ''CUDA out of memory'')),
       Iteration (sample_pass sample_pair no_detections)] = 2"
  by (simp add: sample_defs)

text \<open>
  Witness for C5: a session of two fed frames, the first with a failing detector.
\<close>

theorem session_frame_numbers_witness:
  "start_recording streaming_controller ''recording'' \<lparr>failure = NoFailure, start_time = 200\<rparr>
     = (fst (start_recording streaming_controller ''recording''
               \<lparr>failure = NoFailure, start_time = 200\<rparr>), True)
   \<and> detection_enabled streaming_controller
   \<and> fed_frames
        (fst (start_recording streaming_controller ''recording''
                \<lparr>failure = NoFailure, start_time = 200\<rparr>))
        [Iteration (sample_pass sample_pair (Inl ''CUDA out of memory'')),
         Iteration (sample_pass sample_pair no_detections)] = 2
   \<and> frame_numbers (detection_metadata (detection_processor (fst (stream_worker
        (fst (start_recording streaming_controller ''recording''
                \<lparr>failure = NoFailure, start_time = 200\<rparr>))
        [Iteration (sample_pass sample_pair (Inl ''CUDA out of memory'')),
         Iteration (sample_pass sample_pair no_detections)])))) = [0]"
proof -
  let ?senv = "\<lparr>failure = NoFailure, start_time = 200\<rparr>"
  let ?s1 = "fst (start_recording streaming_controller ''recording'' ?senv)"
  let ?es = "[Iteration (sample_pass sample_pair (Inl ''CUDA out of memory'')),
         Iteration (sample_pass sample_pair no_detections)]"
  let ?s2 = "fst (stream_worker ?s1 ?es)"
  have h1: "start_recording streaming_controller ''recording'' ?senv = (?s1, True)"
    by (simp add: start_sample)
  have h3: "stream_worker ?s1 ?es = (?s2, snd (stream_worker ?s1 ?es))" by simp
  have c: "length (detection_metadata (detection_processor ?s2)) = fed_frames ?s1 ?es
    \<and> frame_numbers (detection_metadata (detection_processor ?s2))
        = [0 ..< fed_frames ?s1 ?es
                  - length (filter is_error (detection_metadata (detection_processor ?s2)))]"
    by (rule session_frame_numbers [OF h1 streaming_controller_simps(3) h3])
  show ?thesis
    using c h1 streaming_controller_simps(3)
    unfolding sample_session_run sample_session_fed by simp
qed

text \<open>
  Claim C5 as worded fails on that session: two frames are fed and the recorded frame
  numbers are not 0 and 1.
\<close>

theorem detection_error_numbering_counterexample:
  "fed_frames
        (fst (start_recording streaming_controller ''recording''
                \<lparr>failure = NoFailure, start_time = 200\<rparr>))
        [Iteration (sample_pass sample_pair (Inl ''CUDA out of memory'')),
         Iteration (sample_pass sample_pair no_detections)] = 2
   \<and> frame_numbers (detection_metadata (detection_processor (fst (stream_worker
        (fst (start_recording streaming_controller ''recording''
                \<lparr>failure = NoFailure, start_time = 200\<rparr>))
        [Iteration (sample_pass sample_pair (Inl ''CUDA out of memory'')),
         Iteration (sample_pass sample_pair no_detections)])))) \<noteq> [0, 1]"
  unfolding sample_session_run sample_session_fed by simp

section \<open>Properties of the metadata sidecar\<close>

lemma py_replace_absent:
  assumes "old \<noteq> []" and "\<not> sublist old s"
  shows "py_replace old new s = s"
  using assms
proof (induction s)
  case Nil
  then show ?case by simp
next
  case (Cons c cs)
  from Cons.prems have "\<not> prefix old (c # cs)" and "\<not> sublist old cs"
    by (auto simp: sublist_Cons_right)
  with Cons show ?case by simp
qed

lemma py_replace_at_end:
  assumes "old \<noteq> []" and "\<not> sublist old (a @ butlast old)"
  shows "py_replace old new (a @ old) = a @ new"
  using assms
proof (induction a)
  case Nil
  then show ?case by (cases old) simp_all
next
  case (Cons c cs)
  have split: "(c # cs) @ old = ((c # cs) @ butlast old) @ [last old]"
    using Cons.prems(1) by simp
  have np: "\<not> prefix old ((c # cs) @ old)"
  proof
    assume "prefix old ((c # cs) @ old)"
    then have "old = ((c # cs) @ butlast old) @ [last old] \<or> prefix old ((c # cs) @ butlast old)"
      unfolding split by (simp only: prefix_snoc)
    then show False
    proof
      assume "old = ((c # cs) @ butlast old) @ [last old]"
      then have "length old = length (((c # cs) @ butlast old) @ [last old])" by simp
      then show False using Cons.prems(1) by simp
    next
      assume "prefix old ((c # cs) @ butlast old)"
      then have "sublist old ((c # cs) @ butlast old)" by (rule prefix_imp_sublist)
      with Cons.prems(2) show False by simp
    qed
  qed
  from Cons.prems(2) have "\<not> sublist old (cs @ butlast old)"
    by (simp add: sublist_Cons_right)
  from Cons.IH [OF Cons.prems(1) this] np Cons.prems(1) show ?case by simp
qed

lemma no_avi_before_extension:
  assumes "\<not> sublist ''.avi'' p"
  shows "\<not> sublist ''.avi'' ((p @ ''_detection'') @ butlast ''.avi'')"
  using assms
  by (auto simp: sublist_append sublist_Cons_right Cons_eq_append_conv append_eq_Cons_conv)

lemma no_mp4_in_sidecar_name:
  assumes "\<not> sublist ''.mp4'' p"
  shows "\<not> sublist ''.mp4'' (p @ ''_detection_detections.json'')"
  using assms
  by (auto simp: sublist_append sublist_Cons_right Cons_eq_append_conv append_eq_Cons_conv)

lemma metadata_file_of_detection_video:
  assumes "\<not> sublist ''.avi'' p" and "\<not> sublist ''.mp4'' p"
  shows "metadata_file (p @ ''_detection.avi'') = p @ ''_detection_detections.json''"
proof -
  have "py_replace ''.avi'' ''_detections.json'' ((p @ ''_detection'') @ ''.avi'')
      = (p @ ''_detection'') @ ''_detections.json''"
    by (rule py_replace_at_end [OF _ no_avi_before_extension [OF assms(1)]]) simp
  then have a: "py_replace ''.avi'' ''_detections.json'' (p @ ''_detection.avi'')
      = p @ ''_detection_detections.json''"
    by simp
  show ?thesis
    unfolding metadata_file_def a
    by (rule py_replace_absent [OF _ no_mp4_in_sidecar_name [OF assms(2)]]) simp
qed

lemma stream_worker_flags:
  "recording (fst (stream_worker s es)) = recording s
   \<and> detection_enabled (fst (stream_worker s es)) = detection_enabled s
   \<and> recording_output_path (fst (stream_worker s es)) = recording_output_path s
   \<and> map_option writer_path (rgb_writer (fst (stream_worker s es))) = map_option writer_path (rgb_writer s)"
proof (induction s es rule: stream_worker.induct)
  case (1 s)
  then show ?case by simp
next
  case (2 s es)
  then show ?case by simp
next
  case (3 s env es)
  show ?case
  proof (cases "is_streaming s \<and> pipeline s")
    case False
    then have "stream_worker s (Iteration env # es) = (s, ExitedOnCondition)" by auto
    then show ?thesis by simp
  next
    case True
    obtain s1 c where wb: "worker_body s env = (s1, c)" by (cases "worker_body s env")
    have k: "recording s1 = recording s" "detection_enabled s1 = detection_enabled s"
      "recording_output_path s1 = recording_output_path s"
      "map_option writer_path (rgb_writer s1) = map_option writer_path (rgb_writer s)"
      using worker_body_flags [of s env] wb by simp_all
    show ?thesis
    proof (cases c)
      case Break
      with True wb k show ?thesis by simp
    next
      case Continue
      from "3.IH" [OF True wb [symmetric] Continue] True wb Continue k show ?thesis by simp
    qed
  qed
qed

lemma start_recording_session:
  assumes "start_recording s0 p env = (s1, True)" and "detection_enabled s0"
  shows "recording s1 \<and> detection_enabled s1 \<and> recording_output_path s1 = Some p
    \<and> map_option writer_path (rgb_writer s1) = Some (p @ ''_detection.avi'')"
  using assms
  by (auto simp: start_recording_def Let_def split: if_splits start_failure.splits)

lemma collect_elements:
  "collect f xs = Inr ys \<Longrightarrow> y \<in> set ys \<Longrightarrow> \<exists>x\<in>set xs. f x = Inr y"
proof (induction xs arbitrary: ys)
  case Nil
  then show ?case by simp
next
  case (Cons x xs)
  then show ?case by (auto split: sum.splits)
qed

lemma detection_info_at_bbox:
  "detection_info_at ops self dm dets key_text names i = Inr y \<Longrightarrow> length (bbox y) = 4"
  by (auto simp: detection_info_at_def Let_def split: sum.splits prod.splits)

lemma process_frame_bbox:
  assumes "process_frame self env f dm = (self', a, FrameMetadata n t pt ds)" and "x \<in> set ds"
  shows "length (bbox x) = 4"
proof -
  from assms(1) obtain dets names where
    "collect (detection_info_at (float_arith env) self dm dets (key_error_text env) names)
       [0 ..< length (xyxy dets)] = Inr ds"
    by (auto simp: process_frame_def try_process_def Let_def
        split: if_splits sum.splits prod.splits)
  from collect_elements [OF this assms(2)] show ?thesis
    by (auto dest: detection_info_at_bbox)
qed

text \<open>
  Claim C8, as amended. For a session started with detection enabled on an output path
  that contains neither \<open>.avi\<close> nor \<open>.mp4\<close>, the main video is written to the output path
  followed by \<open>_detection.avi\<close>, and stopping the session writes the sidecar to the same
  name with \<open>.avi\<close> replaced by \<open>_detections.json\<close>. The document has the fields
  \<open>total_frames\<close>, \<open>model_path\<close>, \<open>config\<close> (with \<open>center_region_ratio\<close>,
  \<open>depth_outlier_threshold\<close> and \<open>yolo_input_size\<close>) and \<open>frames\<close>, the accumulated records
  in order; the record of a processed frame has its number, timestamp, processing time
  and detections, each detection with \<open>tracker_id\<close>, \<open>class_id\<close>, \<open>class_name\<close>,
  \<open>confidence\<close>, \<open>bbox\<close> (4 floats), \<open>depth_mm\<close> and \<open>depth_m\<close>.
\<close>

theorem sidecar_written_on_stop:
  assumes "start_recording s0 p senv = (s1, True)" and "detection_enabled s0"
    and "stream_worker s1 es = (s2, ex)"
    and "\<not> sublist ''.avi'' p" and "\<not> sublist ''.mp4'' p"
  shows "map_option writer_path (rgb_writer s2) = Some (p @ ''_detection.avi'')
    \<and> snd (stop_recording s2 True) =
        Some (p @ ''_detection_detections.json'',
          JObject
            [(''total_frames'', JInt (int (length (detection_metadata (detection_processor s2))))),
             (''model_path'', JString (model_path (detection_processor s2))),
             (''config'',
                JObject
                  [(''center_region_ratio'', JFloat (CENTER_REGION_RATIO (detection_processor s2))),
                   (''depth_outlier_threshold'',
                      JFloat (DEPTH_OUTLIER_THRESHOLD (detection_processor s2))),
                   (''yolo_input_size'', JInt (YOLO_INPUT_SIZE (detection_processor s2)))]),
             (''frames'',
                JArray (map json_of_metadata (detection_metadata (detection_processor s2))))])
    \<and> json_of_metadata (FrameMetadata n t pt ds) =
        JObject [(''frame_number'', JInt (int n)), (''timestamp'', JFloat t),
                 (''processing_time_ms'', JFloat pt),
                 (''detections'', JArray (map json_of_detection ds))]
    \<and> json_of_detection d =
        JObject [(''tracker_id'', json_of_option JInt (tracker_id d)),
                 (''class_id'', json_of_option JInt (class_id d)),
                 (''class_name'', JString (class_name d)),
                 (''confidence'', json_of_option JFloat (confidence d)),
                 (''bbox'', JArray (map JFloat (bbox d))),
                 (''depth_mm'', JFloat (depth_mm d)),
                 (''depth_m'', JFloat (depth_m d))]
    \<and> (process_frame self env f dm = (self', a, FrameMetadata n t pt ds)
          \<longrightarrow> (\<forall>x\<in>set ds. length (bbox x) = 4))"
proof -
  from start_recording_session [OF assms(1,2)] stream_worker_flags [of s1 es] assms(3)
  have k: "recording s2" "detection_enabled s2" "recording_output_path s2 = Some p"
    "map_option writer_path (rgb_writer s2) = Some (p @ ''_detection.avi'')"
    by simp_all
  have wf: "snd (stop_recording s2 True) =
      Some (metadata_file (p @ ''_detection.avi''), detection_document (detection_processor s2))"
    using k by (simp add: stop_recording_def save_detection_metadata_def Let_def)
  show ?thesis
    unfolding wf metadata_file_of_detection_video [OF assms(4,5)]
    using k(4) process_frame_bbox [of self env f dm self' a n t pt ds]
    by (simp add: detection_document_def json_of_detection_def)
qed

lemma one_detection_run:
  "detection_metadata (detection_processor (fst (stream_worker
      (fst (start_recording streaming_controller ''recording'' \<lparr>failure = NoFailure, start_time = 200\<rparr>))
      [Iteration (sample_pass sample_pair one_detection)])))
   = [FrameMetadata 0 (100 + 1 / 8) 125
        [\<lparr>tracker_id = Some 7, class_id = Some 0, class_name = ''box'', confidence = Some (7 / 8),
          bbox = [0, 0, 2, 1], depth_mm = 0, depth_m = 0\<rparr>]]"
  by (simp add: sample_defs one_detection_def detection_info_at_def label_at_def nth_or_none_def
      class_name_of_def lookup_name_def calculate_depth_robust_center_with_def center_bounds_def
      trunc_int_def shape0_def shape1_def bbox_depth_of_def slice_def valid_depth_of_def)

lemma one_detection_frame:
  "process_frame loaded_processor (detect (sample_pass sample_pair one_detection))
      [[(30, 20, 10), (60, 50, 40)]] [[1500, 1500]]
   = (loaded_processor\<lparr>processing_times := [125],
        stats := \<lparr>objects_detected = 1, avg_processing_time = 125, model_loaded = True,
                  last_detection_count = 1\<rparr>,
        frame_count := 1\<rparr>,
      [[(30, 20, 10), (60, 50, 40)]],
      FrameMetadata 0 (100 + 1 / 8) 125
        [\<lparr>tracker_id = Some 7, class_id = Some 0, class_name = ''box'', confidence = Some (7 / 8),
          bbox = [0, 0, 2, 1], depth_mm = 0, depth_m = 0\<rparr>])"
  by (simp add: sample_defs one_detection_def detection_info_at_def label_at_def nth_or_none_def
      class_name_of_def lookup_name_def calculate_depth_robust_center_with_def center_bounds_def
      trunc_int_def shape0_def shape1_def bbox_depth_of_def slice_def valid_depth_of_def np_mean_def)

text \<open>
  Witness for C8: a session on the path \<open>recording\<close> with one frame and one detection.
\<close>

theorem sidecar_written_on_stop_witness:
  "start_recording streaming_controller ''recording'' \<lparr>failure = NoFailure, start_time = 200\<rparr>
     = (fst (start_recording streaming_controller ''recording''
               \<lparr>failure = NoFailure, start_time = 200\<rparr>), True)
   \<and> detection_enabled streaming_controller
   \<and> \<not> sublist ''.avi'' ''recording'' \<and> \<not> sublist ''.mp4'' ''recording''
   \<and> process_frame loaded_processor (detect (sample_pass sample_pair one_detection))
        [[(30, 20, 10), (60, 50, 40)]] [[1500, 1500]]
     = (loaded_processor\<lparr>processing_times := [125],
          stats := \<lparr>objects_detected = 1, avg_processing_time = 125, model_loaded = True,
                    last_detection_count = 1\<rparr>,
          frame_count := 1\<rparr>,
        [[(30, 20, 10), (60, 50, 40)]],
        FrameMetadata 0 (100 + 1 / 8) 125
          [\<lparr>tracker_id = Some 7, class_id = Some 0, class_name = ''box'',
            confidence = Some (7 / 8), bbox = [0, 0, 2, 1], depth_mm = 0, depth_m = 0\<rparr>])
   \<and> snd (stop_recording (fst (stream_worker
        (fst (start_recording streaming_controller ''recording''
                \<lparr>failure = NoFailure, start_time = 200\<rparr>))
        [Iteration (sample_pass sample_pair one_detection)])) True)
     = Some (''recording_detection_detections.json'',
         JObject
           [(''total_frames'', JInt 1),
            (''model_path'', JString ''PredictModel/best PT 3500.pt''),
            (''config'',
               JObject [(''center_region_ratio'', JFloat (6 / 10)),
                        (''depth_outlier_threshold'', JFloat 2),
                        (''yolo_input_size'', JInt 640)]),
            (''frames'',
               JArray
                 [JObject
                    [(''frame_number'', JInt 0), (''timestamp'', JFloat (100 + 1 / 8)),
                     (''processing_time_ms'', JFloat 125),
                     (''detections'',
                        JArray
                          [JObject
                             [(''tracker_id'', JInt 7), (''class_id'', JInt 0),
                              (''class_name'', JString ''box''),
                              (''confidence'', JFloat (7 / 8)),
                              (''bbox'', JArray [JFloat 0, JFloat 0, JFloat 2, JFloat 1]),
                              (''depth_mm'', JFloat 0), (''depth_m'', JFloat 0)]])]])])"
proof -
  let ?senv = "\<lparr>failure = NoFailure, start_time = 200\<rparr>"
  let ?s1 = "fst (start_recording streaming_controller ''recording'' ?senv)"
  let ?es = "[Iteration (sample_pass sample_pair one_detection)]"
  let ?s2 = "fst (stream_worker ?s1 ?es)"
  have h1: "start_recording streaming_controller ''recording'' ?senv = (?s1, True)"
    by (simp add: start_sample)
  have h3: "stream_worker ?s1 ?es = (?s2, snd (stream_worker ?s1 ?es))" by simp
  have h4: "\<not> sublist ''.avi'' ''recording''" and h5: "\<not> sublist ''.mp4'' ''recording''"
    by (simp_all add: sublist_Cons_right)
  have mp: "model_path (detection_processor ?s2) = ''PredictModel/best PT 3500.pt''"
    and cfg: "CENTER_REGION_RATIO (detection_processor ?s2) = 6 / 10"
      "DEPTH_OUTLIER_THRESHOLD (detection_processor ?s2) = 2"
      "YOLO_INPUT_SIZE (detection_processor ?s2) = 640"
    by (simp_all add: sample_defs one_detection_def detection_info_at_def label_at_def
        nth_or_none_def class_name_of_def lookup_name_def calculate_depth_robust_center_with_def
        center_bounds_def trunc_int_def shape0_def shape1_def bbox_depth_of_def slice_def
        valid_depth_of_def)
  from sidecar_written_on_stop [where self = loaded_processor
        and env = "detect (sample_pass sample_pair one_detection)"
        and f = "[[(30, 20, 10), (60, 50, 40)]]" and dm = "[[1500, 1500]]"
        and self' = "loaded_processor\<lparr>processing_times := [125],
          stats := \<lparr>objects_detected = 1, avg_processing_time = 125, model_loaded = True,
                    last_detection_count = 1\<rparr>,
          frame_count := 1\<rparr>"
        and a = "[[(30, 20, 10), (60, 50, 40)]]"
        and n = 0 and t = "100 + 1 / 8" and pt = 125
        and ds = "[\<lparr>tracker_id = Some 7, class_id = Some 0, class_name = ''box'',
            confidence = Some (7 / 8), bbox = [0, 0, 2, 1], depth_mm = 0, depth_m = 0\<rparr>]",
      OF h1 streaming_controller_simps(3) h3 h4 h5]
  show ?thesis
    using h1 h4 h5 one_detection_frame
    by (simp del: stream_worker.simps
        add: mp cfg one_detection_run streaming_controller_simps json_of_detection_def
          json_of_option_def)
qed

text \<open>
  Claim C8 as worded fails: the \<open>config\<close> object has no field \<open>detector_input_size\<close> (the
  field is \<open>yolo_input_size\<close>), and for a video path that contains \<open>.mp4\<close> the sidecar name
  is not the video name with its extension replaced.
\<close>

theorem sidecar_config_key_counterexample:
  "json_lookup [''config'', ''detector_input_size''] (detection_document loaded_processor) = None
   \<and> json_lookup [''config'', ''yolo_input_size''] (detection_document loaded_processor)
       = Some (JInt 640)
   \<and> metadata_file ''out.mp4_detection.avi'' = ''out_detections.json_detection_detections.json''"
  by (simp add: detection_document_def loaded_processor_def init_processor_def metadata_file_def)

end
